theory Spec2Isabelle
  imports Main "HOL-Library.Char_ord" "HOL-Library.List_Lexorder" "HOL-Library.Multiset"
begin

section \<open>The CachyOS updater (modules/updaters/CachyOS.py)\<close>

text \<open>
  Strings are Python \<open>str\<close> values restricted to code points below 256: a \<^typ>\<open>char\<close> is one
  code point, \<^typ>\<open>string\<close> is compared lexicographically by code point (the instances of
  \<open>Char_ord\<close> and \<open>List_Lexorder\<close>), which is Python's \<open>str\<close> ordering. In that range the
  decimal digits (what \<open>\d\<close> matches in a \<open>str\<close> pattern) are exactly \<open>0\<close> to \<open>9\<close>.
\<close>

subsection \<open>Exceptions\<close>

text \<open>
  Every exception the module raises itself, and the ones its library calls raise on the
  inputs modelled here. \<open>VersionNotFoundError\<close>, \<open>ValueError\<close> and \<open>ConnectionError\<close> carry
  the message built by the source; \<open>TypeError\<close> is raised by \<open>re.match\<close> on \<open>None\<close> and by
  \<open>max\<close> when it compares \<open>None\<close> with a \<open>str\<close>; \<open>RequestException\<close> stands for any
  exception \<open>requests.get\<close> raises on a transport failure.
\<close>

datatype error =
    VersionNotFoundError string
  | ValueError string
  | ConnectionError string
  | TypeError
  | RequestException string

fun is_VersionNotFoundError :: "error \<Rightarrow> bool" where
  "is_VersionNotFoundError (VersionNotFoundError m) = True"
| "is_VersionNotFoundError (ValueError m) = False"
| "is_VersionNotFoundError (ConnectionError m) = False"
| "is_VersionNotFoundError TypeError = False"
| "is_VersionNotFoundError (RequestException m) = False"

subsection \<open>Module constants\<close>

definition DOMAIN :: string where
  "DOMAIN = ''https://cdn.cachyos.org''"

definition DOWNLOAD_PAGE_URL :: string where
  "DOWNLOAD_PAGE_URL = DOMAIN @ ''/ISO''"

definition FILE_NAME :: string where
  "FILE_NAME = ''cachyos-[[EDITION]]-linux-[[VER]].iso''"

subsection \<open>Library functions on strings\<close>

text \<open>\<open>str(x)\<close> as an f-string applies it to a value that is a \<open>str\<close> or \<open>None\<close>.\<close>

fun py_format :: "string option \<Rightarrow> string" where
  "py_format None = ''None''"
| "py_format (Some s) = s"

definition is_digit :: "char \<Rightarrow> bool" where
  "is_digit c = (CHR ''0'' \<le> c \<and> c \<le> CHR ''9'')"

text \<open>
  \<open>str.isspace\<close> on one code point below 256: tab, the line breaks, the separators
  \<open>0x1c\<close> to \<open>0x1f\<close>, the space, \<open>0x85\<close> and the no-break space \<open>0xa0\<close>.
\<close>

definition is_space :: "char \<Rightarrow> bool" where
  "is_space c = (of_char c \<in> {9, 10, 11, 12, 13, 28, 29, 30, 31, 32, 133, 160 :: nat})"

text \<open>The line boundaries of \<open>str.splitlines\<close> below 256, \<open>\r\n\<close> counting as one.\<close>

definition is_linebreak :: "char \<Rightarrow> bool" where
  "is_linebreak c = (of_char c \<in> {10, 11, 12, 13, 28, 29, 30, 133 :: nat})"

text \<open>
  \<open>str.split()\<close> with no argument: the maximal runs of non-whitespace characters. The first
  argument is the run read so far, reversed.
\<close>

fun split_aux :: "string \<Rightarrow> string \<Rightarrow> string list" where
  "split_aux cur [] = (if cur = [] then [] else [rev cur])"
| "split_aux cur (c # cs) =
     (if is_space c
      then (if cur = [] then split_aux [] cs else rev cur # split_aux [] cs)
      else split_aux (c # cur) cs)"

definition py_split :: "string \<Rightarrow> string list" where
  "py_split s = split_aux [] s"

text \<open>
  \<open>str.splitlines()\<close>: the lines without their line breaks; a final line break opens no
  empty last line.
\<close>

fun splitlines_aux :: "string \<Rightarrow> string \<Rightarrow> string list" where
  "splitlines_aux cur [] = (if cur = [] then [] else [rev cur])"
| "splitlines_aux cur [c] = (if is_linebreak c then [rev cur] else [rev (c # cur)])"
| "splitlines_aux cur (c # d # cs) =
     (if c = CHR 0x0D \<and> d = CHR 0x0A then rev cur # splitlines_aux [] cs
      else if is_linebreak c then rev cur # splitlines_aux [] (d # cs)
      else splitlines_aux (c # cur) (d # cs))"

definition splitlines :: "string \<Rightarrow> string list" where
  "splitlines s = splitlines_aux [] s"

text \<open>
  \<open>str.lower()\<close> on code points below 256: \<open>A\<close> to \<open>Z\<close> and \<open>0xc0\<close> to \<open>0xde\<close> without the
  multiplication sign \<open>0xd7\<close> move up by 32.
\<close>

definition lower_char :: "char \<Rightarrow> char" where
  "lower_char c =
     (let n = (of_char c :: nat)
      in if (65 \<le> n \<and> n \<le> 90) \<or> (192 \<le> n \<and> n \<le> 222 \<and> n \<noteq> 215)
         then char_of (n + 32) else c)"

definition lower :: "string \<Rightarrow> string" where
  "lower s = map lower_char s"

subsection \<open>The version pattern\<close>

text \<open>
  \<open>re.match(r"\d{6}/", s)\<close> for a string \<open>s\<close>: the match starts at the first character and
  may end anywhere. \<open>match_digits n s\<close> consumes \<open>n\<close> digits and returns the rest.
\<close>

fun match_digits :: "nat \<Rightarrow> string \<Rightarrow> string option" where
  "match_digits 0 s = Some s"
| "match_digits (Suc n) [] = None"
| "match_digits (Suc n) (c # cs) = (if is_digit c then match_digits n cs else None)"

definition re_match_version :: "string \<Rightarrow> bool" where
  "re_match_version s =
     (case match_digits 6 s of
        None \<Rightarrow> False
      | Some [] \<Rightarrow> False
      | Some (c # rest) \<Rightarrow> c = CHR ''/'')"

subsection \<open>The version extractor\<close>

text \<open>
  A link is an \<open><a>\<close> tag as the extractor reads it: \<open>link.get("href")\<close> and
  \<open>link.get("title")\<close>, each \<open>None\<close> when the tag has no such attribute. The listing is the
  list \<open>select("table#list tbody tr td.link a")\<close> returns on the parsed page, in document
  order.
\<close>

record link =
  href :: "string option"
  title :: "string option"

text \<open>
  The list comprehension of \<open>_get_latest_version\<close>: \<open>re.match\<close> raises \<open>TypeError\<close> on an
  \<open>href\<close> that is \<open>None\<close>.
\<close>

fun version_numbers :: "link list \<Rightarrow> error + string option list" where
  "version_numbers [] = Inr []"
| "version_numbers (l # ls) =
     (case href l of
        None \<Rightarrow> Inl TypeError
      | Some h \<Rightarrow>
          (case version_numbers ls of
             Inl e \<Rightarrow> Inl e
           | Inr vs \<Rightarrow> Inr (if re_match_version h then title l # vs else vs)))"

text \<open>
  \<open>max\<close> on a list: the running maximum is replaced by a strictly greater item; comparing
  \<open>None\<close> with anything raises \<open>TypeError\<close>.
\<close>

fun max_loop :: "string option \<Rightarrow> string option list \<Rightarrow> error + string option" where
  "max_loop m [] = Inr m"
| "max_loop m (x # xs) =
     (case (x, m) of
        (Some a, Some b) \<Rightarrow> max_loop (if a > b then x else m) xs
      | _ \<Rightarrow> Inl TypeError)"

fun py_max :: "string option list \<Rightarrow> error + string option" where
  "py_max [] = Inl (ValueError ''max() arg is an empty sequence'')"
| "py_max (x # xs) = max_loop x xs"

definition get_latest_version :: "link list \<Rightarrow> error + string option" where
  "get_latest_version download_links =
     (if download_links = []
      then Inl (VersionNotFoundError ''We were not able to parse the download page'')
      else
        (case version_numbers download_links of
           Inl e \<Rightarrow> Inl e
         | Inr vs \<Rightarrow>
             if vs = []
             then Inl (VersionNotFoundError ''No valid version numbers found in the download links'')
             else py_max vs))"

subsection \<open>The checksum matcher\<close>

text \<open>The loop of \<open>_parse_sha256_hash\<close> over the lines.\<close>

fun parse_lines :: "string list \<Rightarrow> string \<Rightarrow> error + string" where
  "parse_lines [] filename =
     Inl (ValueError (''Hash not found for the specified file: '' @ filename))"
| "parse_lines (line # rest) filename =
     (let parts = py_split line
      in if length parts = 2 \<and> parts ! 1 = filename then Inr (parts ! 0)
         else parse_lines rest filename)"

definition parse_sha256_hash :: "string \<Rightarrow> string \<Rightarrow> error + string" where
  "parse_sha256_hash hash_file_content filename =
     parse_lines (splitlines hash_file_content) filename"

subsection \<open>The resolver\<close>

text \<open>
  A \<open>requests.Response\<close> as the module reads it: the status code and the body (\<open>.content\<close>
  in the constructor, \<open>.text\<close> in \<open>check_integrity\<close>).
\<close>

record response =
  status_code :: int
  content :: string

text \<open>A \<open>pathlib.Path\<close> is the list of its components; \<open>p / name\<close> appends one.\<close>

type_synonym path = "string list"

text \<open>
  An instance of the class. \<open>soup_download_page\<close> is the parsed page, kept as the links its
  \<open>select\<close> call returns. The two \<open>functools.cache\<close> decorators key their caches on the
  instance; each instance carries its own two entries, \<open>None\<close> until a call has returned.
\<close>

record CachyOS =
  valid_editions :: "string list"
  edition :: string
  file_path :: path
  download_page :: response
  soup_download_page :: "link list"
  latest_version_cache :: "string option option"
  download_link_cache :: "string option"

text \<open>
  What the module calls and does not define. \<open>requests_get\<close> is \<open>requests.get\<close>, which
  returns a response or raises. \<open>BeautifulSoup_select\<close> parses a body and selects
  \<open>table#list tbody tr td.link a\<close>. \<open>GenericUpdater_init\<close> is the constructor of the base
  class: the exception it raises, if any. \<open>get_complete_normalized_file_path\<close> is the
  base class's path helper, and \<open>file_sha256\<close> the SHA-256 digest of the file at a path.
\<close>

record env =
  requests_get :: "string \<Rightarrow> error + response"
  BeautifulSoup_select :: "string \<Rightarrow> link list"
  GenericUpdater_init :: "path \<Rightarrow> error option"
  get_complete_normalized_file_path :: "CachyOS \<Rightarrow> path"
  file_sha256 :: "path \<Rightarrow> string"

text \<open>
  Modelled from the spec: \<open>sha256_hash_check\<close> of \<open>modules/utils\<close> is not among the sources.
  The spec has the integrity check compare the hash found in the manifest against a locally
  computed hash of the file and return true only on exact hash equality.
\<close>

definition sha256_hash_check :: "env \<Rightarrow> path \<Rightarrow> string \<Rightarrow> bool" where
  "sha256_hash_check e file hash = (file_sha256 e file = hash)"

text \<open>\<open>repr\<close> of a list of strings that hold no quote and no backslash.\<close>

fun repr_items :: "string list \<Rightarrow> string" where
  "repr_items [] = []"
| "repr_items [x] = [CHR 0x27] @ x @ [CHR 0x27]"
| "repr_items (x # y # ys) = [CHR 0x27] @ x @ [CHR 0x27] @ '', '' @ repr_items (y # ys)"

definition repr_list :: "string list \<Rightarrow> string" where
  "repr_list xs = ''['' @ repr_items xs @ '']''"

text \<open>
  \<open>__init__\<close>. The second component is the list of the URLs the constructor has requested,
  in order. An exception leaves the caller without an instance.
\<close>

definition CachyOS_init :: "env \<Rightarrow> path \<Rightarrow> string \<Rightarrow> (error + CachyOS) \<times> string list" where
  "CachyOS_init e folder_path edition_arg =
     (let valid = [''desktop'', ''handheld''];
          ed = lower edition_arg;
          fp = folder_path @ [FILE_NAME]
      in case GenericUpdater_init e fp of
           Some err \<Rightarrow> (Inl err, [])
         | None \<Rightarrow>
             if ed \<notin> set valid
             then (Inl (ValueError (''Invalid edition: '' @ ed @ ''. Valid editions are: ''
                                     @ repr_list valid)), [])
             else
               (let url = DOWNLOAD_PAGE_URL @ ''/'' @ ed
                in case requests_get e url of
                     Inl err \<Rightarrow> (Inl err, [url])
                   | Inr page \<Rightarrow>
                       if status_code page \<noteq> 200
                       then (Inl (ConnectionError (''Failed to fetch the download page from ''
                                     @ [CHR 0x27] @ url @ [CHR 0x27])), [url])
                       else (Inr \<lparr>valid_editions = valid, edition = ed, file_path = fp,
                                  download_page = page,
                                  soup_download_page = BeautifulSoup_select e (content page),
                                  latest_version_cache = None,
                                  download_link_cache = None\<rparr>, [url])))"

text \<open>
  The cached \<open>_get_latest_version\<close>: a stored result is returned as it is; otherwise the body
  runs on the instance's page, and its result is stored unless it raised.
\<close>

definition cached_get_latest_version :: "CachyOS \<Rightarrow> (error + string option) \<times> CachyOS" where
  "cached_get_latest_version s =
     (case latest_version_cache s of
        Some v \<Rightarrow> (Inr v, s)
      | None \<Rightarrow>
          (case get_latest_version (soup_download_page s) of
             Inl err \<Rightarrow> (Inl err, s)
           | Inr v \<Rightarrow> (Inr v, s\<lparr>latest_version_cache := Some v\<rparr>)))"

text \<open>The two f-strings that name the image: the URL and the file name.\<close>

definition download_link_format :: "string \<Rightarrow> string option \<Rightarrow> string" where
  "download_link_format ed latest_version =
     DOWNLOAD_PAGE_URL @ ''/'' @ ed @ ''/'' @ py_format latest_version @ ''/cachyos-'' @ ed
       @ ''-linux-'' @ py_format latest_version @ ''.iso''"

definition iso_file_name :: "string \<Rightarrow> string option \<Rightarrow> string" where
  "iso_file_name ed latest_version =
     ''cachyos-'' @ ed @ ''-linux-'' @ py_format latest_version @ ''.iso''"

text \<open>The body of \<open>_get_download_link\<close>, and the method under its cache.\<close>

definition get_download_link :: "CachyOS \<Rightarrow> (error + string) \<times> CachyOS" where
  "get_download_link s =
     (case cached_get_latest_version s of
        (Inl err, s1) \<Rightarrow> (Inl err, s1)
      | (Inr latest_version, s1) \<Rightarrow> (Inr (download_link_format (edition s1) latest_version), s1))"

definition cached_get_download_link :: "CachyOS \<Rightarrow> (error + string) \<times> CachyOS" where
  "cached_get_download_link s =
     (case download_link_cache s of
        Some u \<Rightarrow> (Inr u, s)
      | None \<Rightarrow>
          (case get_download_link s of
             (Inl err, s1) \<Rightarrow> (Inl err, s1)
           | (Inr u, s1) \<Rightarrow> (Inr u, s1\<lparr>download_link_cache := Some u\<rparr>)))"

text \<open>\<open>check_integrity\<close>: the status code of the manifest's response is not read.\<close>

definition check_integrity :: "env \<Rightarrow> CachyOS \<Rightarrow> (error + bool) \<times> CachyOS" where
  "check_integrity e s =
     (case cached_get_download_link s of
        (Inl err, s1) \<Rightarrow> (Inl err, s1)
      | (Inr link, s1) \<Rightarrow>
          (case requests_get e (link @ ''.sha256'') of
             Inl err \<Rightarrow> (Inl err, s1)
           | Inr r \<Rightarrow>
               (case cached_get_latest_version s1 of
                  (Inl err, s2) \<Rightarrow> (Inl err, s2)
                | (Inr v, s2) \<Rightarrow>
                    (case parse_sha256_hash (content r) (iso_file_name (edition s2) v) of
                       Inl err \<Rightarrow> (Inl err, s2)
                     | Inr sha256_sum \<Rightarrow>
                         (Inr (sha256_hash_check e (get_complete_normalized_file_path e s2)
                                 sha256_sum), s2)))))"

subsection \<open>Vocabulary of the properties\<close>

text \<open>
  A well-formed version link has an \<open>href\<close> that matches the pattern and a \<open>title\<close>; a
  link fails the pattern when it has an \<open>href\<close> and that does not match.
\<close>

definition well_formed :: "link \<Rightarrow> bool" where
  "well_formed l =
     (case href l of
        None \<Rightarrow> False
      | Some h \<Rightarrow> re_match_version h \<and> title l \<noteq> None)"

definition fails_pattern :: "link \<Rightarrow> bool" where
  "fails_pattern l = (case href l of None \<Rightarrow> False | Some h \<Rightarrow> \<not> re_match_version h)"


subsection \<open>Example inputs\<close>

text \<open>
  The listing of the end-to-end scenario, an instance built on it, and an environment whose
  requests all answer with one status and body.
\<close>

definition example_links :: "link list" where
  "example_links =
     [\<lparr>href = Some ''240101/'', title = Some ''v1''\<rparr>,
      \<lparr>href = Some ''240601/'', title = Some ''v2''\<rparr>,
      \<lparr>href = Some ''notaversion/'', title = Some ''bad''\<rparr>]"

definition example_instance :: CachyOS where
  "example_instance =
     \<lparr>valid_editions = [''desktop'', ''handheld''], edition = ''desktop'',
      file_path = [''isos'', FILE_NAME],
      download_page = \<lparr>status_code = 200, content = ''<html>''\<rparr>,
      soup_download_page = example_links,
      latest_version_cache = None, download_link_cache = None\<rparr>"

definition example_env :: "int \<Rightarrow> string \<Rightarrow> string \<Rightarrow> env" where
  "example_env status manifest digest =
     \<lparr>requests_get = (\<lambda>url. Inr \<lparr>status_code = status, content = manifest\<rparr>),
      BeautifulSoup_select = (\<lambda>html. example_links),
      GenericUpdater_init = (\<lambda>p. None),
      get_complete_normalized_file_path = file_path,
      file_sha256 = (\<lambda>p. digest)\<rparr>"



section \<open>Properties\<close>

subsection \<open>Checksum matcher\<close>

lemma parse_lines_find:
  "parse_lines ls filename =
     (case List.find (\<lambda>line. length (py_split line) = 2 \<and> py_split line ! 1 = filename) ls of
        None \<Rightarrow> Inl (ValueError (''Hash not found for the specified file: '' @ filename))
      | Some line \<Rightarrow> Inr (py_split line ! 0))"
  by (induction ls) (simp_all add: Let_def)

text \<open>
  C2: the matcher returns the first token of the first line of the manifest that splits on
  whitespace into exactly two tokens with the second equal to the file name; every other
  line is passed over; with no such line it raises the \<open>ValueError\<close> whose message ends
  with the file name.
\<close>

theorem parse_sha256_hash_first_match:
  "parse_sha256_hash hash_file_content filename =
     (case List.find (\<lambda>line. length (py_split line) = 2 \<and> py_split line ! 1 = filename)
             (splitlines hash_file_content) of
        None \<Rightarrow> Inl (ValueError (''Hash not found for the specified file: '' @ filename))
      | Some line \<Rightarrow> Inr (py_split line ! 0))"
  unfolding parse_sha256_hash_def by (rule parse_lines_find)

theorem parse_sha256_hash_first_match_witness:
  "parse_sha256_hash ''aaa x.iso extra\<newline>\<newline>bbb x.iso\<newline>ccc x.iso\<newline>'' ''x.iso'' = Inr ''bbb''
   \<and> parse_sha256_hash ''aaa x.iso extra\<newline>\<newline>bbb x.iso\<newline>ccc x.iso\<newline>'' ''X.iso''
       = Inl (ValueError ''Hash not found for the specified file: X.iso'')"
  using parse_sha256_hash_first_match
          [of "''aaa x.iso extra\<newline>\<newline>bbb x.iso\<newline>ccc x.iso\<newline>''" "''x.iso''"]
        parse_sha256_hash_first_match
          [of "''aaa x.iso extra\<newline>\<newline>bbb x.iso\<newline>ccc x.iso\<newline>''" "''X.iso''"]
  by (simp add: splitlines_def py_split_def is_space_def is_linebreak_def)

subsection \<open>Version pattern and extractor\<close>




lemma version_numbers_tolerated:
  "\<forall>l\<in>set links. well_formed l \<or> fails_pattern l \<Longrightarrow>
   version_numbers links = Inr (map title (filter well_formed links))"
  by (induction links) (auto simp: well_formed_def fails_pattern_def split: option.splits)

lemma max_loop_fold:
  "max_loop (Some m) (map Some xs) = Inr (Some (fold max xs m))"
proof (induction xs arbitrary: m)
  case Nil
  then show ?case by simp
next
  case (Cons x xs)
  have "(if m < x then x else m) = max x m"
    by (auto simp: max_def dest: leD)
  with Cons show ?case by simp
qed

lemma max_loop_Some:
  "max_loop (Some m) (map Some xs) = Inr (Some (Max (set (m # xs))))"
  by (simp only: max_loop_fold Max.set_eq_fold)

lemma py_max_Some:
  "xs \<noteq> [] \<Longrightarrow> py_max (map Some xs) = Inr (Some (Max (set xs)))"
  by (cases xs) (simp_all only: py_max.simps list.map max_loop_Some)

lemma titles_of_well_formed:
  "map title (filter well_formed links) = map Some (map (the \<circ> title) (filter well_formed links))"
  by (induction links) (auto simp: well_formed_def split: option.splits)

lemma get_latest_version_Max:
  assumes tol: "\<forall>l\<in>set links. well_formed l \<or> fails_pattern l"
    and ex: "\<exists>l\<in>set links. well_formed l"
  shows "get_latest_version links =
           Inr (Some (Max ((the \<circ> title) ` {l \<in> set links. well_formed l})))"
proof -
  from ex have ne: "links \<noteq> []" by auto
  from ex have fne: "filter well_formed links \<noteq> []"
    by (simp add: filter_empty_conv)
  have vn: "version_numbers links = Inr (map Some (map (the \<circ> title) (filter well_formed links)))"
    using version_numbers_tolerated [OF tol] titles_of_well_formed by simp
  have "py_max (map Some (map (the \<circ> title) (filter well_formed links)))
          = Inr (Some (Max (set (map (the \<circ> title) (filter well_formed links)))))"
    using fne by (intro py_max_Some) simp
  moreover have "set (map (the \<circ> title) (filter well_formed links))
                   = (the \<circ> title) ` {l \<in> set links. well_formed l}"
    by simp
  ultimately show ?thesis
    using ne fne vn by (simp add: get_latest_version_def)
qed

text \<open>
  The extractor away from links that lack an attribute: on a listing in which every link is
  either well-formed or has an \<open>href\<close> that fails the pattern, with at least one
  well-formed link, it returns the greatest \<open>title\<close> of the well-formed links in the
  lexical order of strings, and returns the same on every reordering of the listing.
\<close>

lemma get_latest_version_max_of_well_formed:
  assumes "\<forall>l\<in>set links. well_formed l \<or> fails_pattern l"
    and "\<exists>l\<in>set links. well_formed l"
  shows "get_latest_version links =
           Inr (Some (Max ((the \<circ> title) ` {l \<in> set links. well_formed l})))
         \<and> (\<forall>links'. mset links' = mset links \<longrightarrow>
               get_latest_version links' = get_latest_version links)"
proof (intro conjI allI impI)
  show "get_latest_version links =
          Inr (Some (Max ((the \<circ> title) ` {l \<in> set links. well_formed l})))"
    using assms by (rule get_latest_version_Max)
next
  fix links'
  assume "mset links' = mset links"
  then have eq: "set links' = set links" by (rule mset_eq_setD)
  with assms have "\<forall>l\<in>set links'. well_formed l \<or> fails_pattern l"
    and "\<exists>l\<in>set links'. well_formed l"
    by simp_all
  then have "get_latest_version links' =
          Inr (Some (Max ((the \<circ> title) ` {l \<in> set links'. well_formed l})))"
    by (rule get_latest_version_Max)
  also have "\<dots> = get_latest_version links"
    using get_latest_version_Max [OF assms] eq by simp
  finally show "get_latest_version links' = get_latest_version links" .
qed

lemma wf_v1: "well_formed \<lparr>href = Some ''240101/'', title = Some ''v1''\<rparr>"
  by (simp add: well_formed_def re_match_version_def is_digit_def eval_nat_numeral)

lemma wf_v2: "well_formed \<lparr>href = Some ''240601/'', title = Some ''v2''\<rparr>"
  by (simp add: well_formed_def re_match_version_def is_digit_def eval_nat_numeral)

lemma fp_bad: "fails_pattern \<lparr>href = Some ''notaversion/'', title = Some ''bad''\<rparr>"
  by (simp add: fails_pattern_def re_match_version_def is_digit_def eval_nat_numeral)

lemma nwf_bad: "\<not> well_formed \<lparr>href = Some ''notaversion/'', title = Some ''bad''\<rparr>"
  by (simp add: well_formed_def re_match_version_def is_digit_def eval_nat_numeral)

lemma get_latest_version_max_of_well_formed_example:
  "get_latest_version
     [\<lparr>href = Some ''240101/'', title = Some ''v1''\<rparr>,
      \<lparr>href = Some ''240601/'', title = Some ''v2''\<rparr>,
      \<lparr>href = Some ''notaversion/'', title = Some ''bad''\<rparr>] = Inr (Some ''v2'')
   \<and> get_latest_version
     [\<lparr>href = Some ''notaversion/'', title = Some ''bad''\<rparr>,
      \<lparr>href = Some ''240601/'', title = Some ''v2''\<rparr>,
      \<lparr>href = Some ''240101/'', title = Some ''v1''\<rparr>] = Inr (Some ''v2'')"
proof -
  let ?links = "[\<lparr>href = Some ''240101/'', title = Some ''v1''\<rparr>,
      \<lparr>href = Some ''240601/'', title = Some ''v2''\<rparr>,
      \<lparr>href = Some ''notaversion/'', title = Some ''bad''\<rparr>]"
  have h1: "\<forall>l\<in>set ?links. well_formed l \<or> fails_pattern l"
    using wf_v1 wf_v2 fp_bad by simp
  have h2: "\<exists>l\<in>set ?links. well_formed l"
    using wf_v1 by simp
  have s: "{l \<in> set ?links. well_formed l} =
             {\<lparr>href = Some ''240101/'', title = Some ''v1''\<rparr>,
              \<lparr>href = Some ''240601/'', title = Some ''v2''\<rparr>}"
    using wf_v1 wf_v2 nwf_bad by auto
  have m: "Max ((the \<circ> title) ` {l \<in> set ?links. well_formed l}) = ''v2''"
    unfolding s by simp
  from get_latest_version_max_of_well_formed [OF h1 h2]
  show ?thesis unfolding m by simp
qed

text \<open>
  C1: the code at a listing of two well-formed version links and one malformed link, a
  link without \<open>href\<close>. The extractor raises \<open>TypeError\<close>; the greatest title of the
  well-formed links, \<open>v2\<close>, is not returned.
\<close>

theorem get_latest_version_malformed_link_TypeError:
  "get_latest_version
     [\<lparr>href = Some ''240101/'', title = Some ''v1''\<rparr>,
      \<lparr>href = Some ''240601/'', title = Some ''v2''\<rparr>,
      \<lparr>href = None, title = Some ''bad''\<rparr>]
   = Inl TypeError"
  by (simp add: get_latest_version_def)



text \<open>
  C5, as amended: both failures of the extractor raise \<open>VersionNotFoundError\<close>, told apart
  by their messages only. An empty selection raises it with the message that the page could
  not be parsed; a non-empty selection whose links all carry an \<open>href\<close> that fails the
  pattern raises it with the message that no valid version number was found. In neither case
  is a version returned.
\<close>

theorem get_latest_version_failures:
  "get_latest_version [] =
     Inl (VersionNotFoundError ''We were not able to parse the download page'')
   \<and> (links \<noteq> [] \<and> (\<forall>l\<in>set links. fails_pattern l) \<longrightarrow>
        get_latest_version links =
          Inl (VersionNotFoundError ''No valid version numbers found in the download links''))
   \<and> VersionNotFoundError ''We were not able to parse the download page''
       \<noteq> VersionNotFoundError ''No valid version numbers found in the download links''"
proof (intro conjI impI)
  show "get_latest_version [] =
     Inl (VersionNotFoundError ''We were not able to parse the download page'')"
    by (simp add: get_latest_version_def)
next
  assume a: "links \<noteq> [] \<and> (\<forall>l\<in>set links. fails_pattern l)"
  then have tol: "\<forall>l\<in>set links. well_formed l \<or> fails_pattern l" by blast
  have "filter well_formed links = []"
    using a by (auto simp: filter_empty_conv well_formed_def fails_pattern_def split: option.splits)
  with version_numbers_tolerated [OF tol] have "version_numbers links = Inr []" by simp
  with a show "get_latest_version links =
          Inl (VersionNotFoundError ''No valid version numbers found in the download links'')"
    by (simp add: get_latest_version_def)
next
  show "VersionNotFoundError ''We were not able to parse the download page''
       \<noteq> VersionNotFoundError ''No valid version numbers found in the download links''"
    by simp
qed

theorem get_latest_version_failures_witness:
  "get_latest_version [\<lparr>href = Some ''notaversion/'', title = Some ''bad''\<rparr>] =
     Inl (VersionNotFoundError ''No valid version numbers found in the download links'')"
  using get_latest_version_failures [of "[\<lparr>href = Some ''notaversion/'', title = Some ''bad''\<rparr>]"]
    fp_bad
  by simp

text \<open>
  The claim C5 as first stated fails on the empty selection: the error raised there is a
  \<open>VersionNotFoundError\<close>, not an error of another kind.
\<close>

theorem get_latest_version_structure_error_counterexample:
  "get_latest_version [] =
     Inl (VersionNotFoundError ''We were not able to parse the download page'')
   \<and> is_VersionNotFoundError (VersionNotFoundError ''We were not able to parse the download page'')"
  by (simp add: get_latest_version_def)

text \<open>
  C7: the code at listings with a link that lacks an attribute. A link without \<open>href\<close>
  makes the extractor raise \<open>TypeError\<close>, and so does a matching link without \<open>title\<close>
  beside another candidate; a single matching link without \<open>title\<close> makes it return
  \<open>None\<close>.
\<close>

theorem get_latest_version_attributeless_TypeError:
  "get_latest_version
     [\<lparr>href = None, title = Some ''v1''\<rparr>, \<lparr>href = Some ''240601/'', title = Some ''v2''\<rparr>]
     = Inl TypeError
   \<and> get_latest_version
     [\<lparr>href = Some ''240101/'', title = None\<rparr>, \<lparr>href = Some ''240601/'', title = Some ''v2''\<rparr>]
     = Inl TypeError
   \<and> get_latest_version [\<lparr>href = Some ''240101/'', title = None\<rparr>] = Inr None"
  by (simp add: get_latest_version_def re_match_version_def is_digit_def eval_nat_numeral)

subsection \<open>The resolver\<close>

lemma cached_get_latest_version_frame:
  "cached_get_latest_version s = (r, s') \<Longrightarrow>
     edition s' = edition s \<and> download_link_cache s' = download_link_cache s
     \<and> soup_download_page s' = soup_download_page s"
  by (auto simp: cached_get_latest_version_def split: option.splits sum.splits)

lemma cached_get_latest_version_stored:
  "cached_get_latest_version s = (Inr v, s') \<Longrightarrow> latest_version_cache s' = Some v"
  by (auto simp: cached_get_latest_version_def split: option.splits sum.splits)


lemma get_download_link_frame:
  "get_download_link s = (r, s') \<Longrightarrow>
     edition s' = edition s \<and> download_link_cache s' = download_link_cache s"
  by (auto simp: get_download_link_def split: prod.splits sum.splits
           dest: cached_get_latest_version_frame)

lemma cached_get_download_link_frame:
  "cached_get_download_link s = (r, s') \<Longrightarrow> edition s' = edition s"
  by (auto simp: cached_get_download_link_def split: option.splits prod.splits sum.splits
           dest: get_download_link_frame)

lemma cached_get_download_link_stored:
  "cached_get_download_link s = (Inr u, s') \<Longrightarrow> download_link_cache s' = Some u"
  by (auto simp: cached_get_download_link_def split: option.splits prod.splits sum.splits)

lemma cached_get_download_link_fresh:
  assumes v: "cached_get_latest_version s = (Inr v, s1)"
    and c: "download_link_cache s = None"
  shows "cached_get_download_link s =
           (Inr (download_link_format (edition s) v),
            s1\<lparr>download_link_cache := Some (download_link_format (edition s) v)\<rparr>)"
  using v c cached_get_latest_version_frame [OF v]
  by (simp add: cached_get_download_link_def get_download_link_def)

text \<open>
  C4: the download URL is a function of the edition and the version alone, namely
  \<open>https://cdn.cachyos.org/ISO/{edition}/{version}/cachyos-{edition}-linux-{version}.iso\<close>,
  which is the base, \<open>/ISO\<close>, the edition, the version and the file name; the method
  returns it for the instance's edition and the version the extractor resolves.
\<close>

theorem download_link_format_url:
  "download_link_format ed (Some ver) =
     ''https://cdn.cachyos.org/ISO/'' @ ed @ ''/'' @ ver @ ''/cachyos-'' @ ed @ ''-linux-''
       @ ver @ ''.iso''
   \<and> download_link_format ed (Some ver) =
       DOMAIN @ ''/ISO/'' @ ed @ ''/'' @ ver @ ''/'' @ iso_file_name ed (Some ver)
   \<and> (cached_get_latest_version s = (Inr (Some ver), s1) \<and> download_link_cache s = None \<longrightarrow>
        fst (cached_get_download_link s) =
          Inr (DOMAIN @ ''/ISO/'' @ edition s @ ''/'' @ ver @ ''/''
               @ iso_file_name (edition s) (Some ver)))"
proof (intro conjI impI)
  show "download_link_format ed (Some ver) =
     ''https://cdn.cachyos.org/ISO/'' @ ed @ ''/'' @ ver @ ''/cachyos-'' @ ed @ ''-linux-''
       @ ver @ ''.iso''"
    by (simp add: download_link_format_def DOWNLOAD_PAGE_URL_def DOMAIN_def)
next
  show "download_link_format ed (Some ver) =
       DOMAIN @ ''/ISO/'' @ ed @ ''/'' @ ver @ ''/'' @ iso_file_name ed (Some ver)"
    by (simp add: download_link_format_def DOWNLOAD_PAGE_URL_def iso_file_name_def)
next
  assume a: "cached_get_latest_version s = (Inr (Some ver), s1) \<and> download_link_cache s = None"
  then have "fst (cached_get_download_link s) = Inr (download_link_format (edition s) (Some ver))"
    using cached_get_download_link_fresh [of s "Some ver" s1] by simp
  then show "fst (cached_get_download_link s) =
          Inr (DOMAIN @ ''/ISO/'' @ edition s @ ''/'' @ ver @ ''/''
               @ iso_file_name (edition s) (Some ver))"
    by (simp add: download_link_format_def DOWNLOAD_PAGE_URL_def iso_file_name_def)
qed

lemma example_latest_version: "get_latest_version example_links = Inr (Some ''v2'')"
  by (simp add: example_links_def get_latest_version_def re_match_version_def is_digit_def
        eval_nat_numeral)

lemma example_cached_latest:
  "cached_get_latest_version example_instance =
     (Inr (Some ''v2''), example_instance\<lparr>latest_version_cache := Some (Some ''v2'')\<rparr>)"
  using example_latest_version
  by (simp add: cached_get_latest_version_def example_instance_def)

lemma example_download_link:
  "cached_get_download_link example_instance =
     (Inr ''https://cdn.cachyos.org/ISO/desktop/v2/cachyos-desktop-linux-v2.iso'',
      example_instance\<lparr>latest_version_cache := Some (Some ''v2''),
        download_link_cache :=
          Some ''https://cdn.cachyos.org/ISO/desktop/v2/cachyos-desktop-linux-v2.iso''\<rparr>)"
proof -
  have e: "edition example_instance = ''desktop''"
    and c: "download_link_cache example_instance = None"
    by (simp_all add: example_instance_def)
  have f: "download_link_format ''desktop'' (Some ''v2'')
             = ''https://cdn.cachyos.org/ISO/desktop/v2/cachyos-desktop-linux-v2.iso''"
    by (simp add: download_link_format_def DOWNLOAD_PAGE_URL_def DOMAIN_def)
  show ?thesis
    using cached_get_download_link_fresh [OF example_cached_latest c] by (simp add: e f)
qed

theorem download_link_format_url_witness:
  "download_link_format ''desktop'' (Some ''v2'') =
     ''https://cdn.cachyos.org/ISO/desktop/v2/cachyos-desktop-linux-v2.iso''
   \<and> iso_file_name ''desktop'' (Some ''v2'') = ''cachyos-desktop-linux-v2.iso''
   \<and> fst (cached_get_download_link example_instance) =
       Inr ''https://cdn.cachyos.org/ISO/desktop/v2/cachyos-desktop-linux-v2.iso''"
proof -
  have c: "download_link_cache example_instance = None"
    and e: "edition example_instance = ''desktop''"
    by (simp_all add: example_instance_def)
  from download_link_format_url [of "''desktop''" "''v2''" example_instance
         "example_instance\<lparr>latest_version_cache := Some (Some ''v2'')\<rparr>"]
       example_cached_latest c e
  show ?thesis by (simp add: iso_file_name_def DOMAIN_def)
qed













lemma check_integrity_unfold:
  assumes l: "cached_get_download_link s = (Inr link, s1)"
    and g: "requests_get e (link @ ''.sha256'') = Inr r"
    and v: "cached_get_latest_version s1 = (Inr v, s2)"
  shows "fst (check_integrity e s) =
           (case parse_sha256_hash (content r) (iso_file_name (edition s) v) of
              Inl err \<Rightarrow> Inl err
            | Inr h \<Rightarrow> Inr (file_sha256 e (get_complete_normalized_file_path e s2) = h))"
proof -
  have "edition s2 = edition s"
    using cached_get_latest_version_frame [OF v] cached_get_download_link_frame [OF l] by simp
  then show ?thesis
    using l g v by (simp add: check_integrity_def sha256_hash_check_def split: sum.splits)
qed


lemma example_manifest:
  "parse_sha256_hash ''abc123  cachyos-desktop-linux-v2.iso\<newline>'' ''cachyos-desktop-linux-v2.iso''
     = Inr ''abc123''"
  by (simp add: parse_sha256_hash_def splitlines_def py_split_def is_space_def is_linebreak_def)


lemma example_cached_latest_again:
  "cached_get_latest_version
     (example_instance\<lparr>latest_version_cache := Some (Some ''v2''),
        download_link_cache :=
          Some ''https://cdn.cachyos.org/ISO/desktop/v2/cachyos-desktop-linux-v2.iso''\<rparr>)
   = (Inr (Some ''v2''),
      example_instance\<lparr>latest_version_cache := Some (Some ''v2''),
        download_link_cache :=
          Some ''https://cdn.cachyos.org/ISO/desktop/v2/cachyos-desktop-linux-v2.iso''\<rparr>)"
  by (simp add: cached_get_latest_version_def)

lemma example_request:
  "requests_get (example_env status manifest digest) u
     = Inr \<lparr>status_code = status, content = manifest\<rparr>"
  by (simp add: example_env_def)


text \<open>
  C6: the code at a manifest response with status 404. \<open>check_integrity\<close> parses the body
  of the response: with a body that holds a line for the file it returns a verdict, and
  with an error page as body the matcher's \<open>ValueError\<close> is what is raised. No error for
  the unreachable resource is raised in either case.
\<close>

theorem check_integrity_ignores_status:
  "fst (check_integrity
          (example_env 404 ''abc123  cachyos-desktop-linux-v2.iso\<newline>'' ''abc123'')
          example_instance) = Inr True
   \<and> fst (check_integrity
          (example_env 404 ''<html>404 Not Found</html>'' ''abc123'')
          example_instance)
       = Inl (ValueError ''Hash not found for the specified file: cachyos-desktop-linux-v2.iso'')"
proof -
  have e: "edition example_instance = ''desktop''"
    by (simp add: example_instance_def)
  have n: "iso_file_name ''desktop'' (Some ''v2'') = ''cachyos-desktop-linux-v2.iso''"
    by (simp add: iso_file_name_def)
  have d: "file_sha256 (example_env status manifest digest) p = digest" for status manifest digest p
    by (simp add: example_env_def)
  have m: "parse_sha256_hash ''<html>404 Not Found</html>'' ''cachyos-desktop-linux-v2.iso''
     = Inl (ValueError ''Hash not found for the specified file: cachyos-desktop-linux-v2.iso'')"
    by (simp add: parse_sha256_hash_def splitlines_def py_split_def is_space_def is_linebreak_def)
  note t = check_integrity_unfold
             [OF example_download_link example_request example_cached_latest_again]
  show ?thesis
    by (simp add: t e n d example_manifest m)
qed

lemma CachyOS_init_lower:
  "lower a = lower b \<Longrightarrow> CachyOS_init e folder_path a = CachyOS_init e folder_path b"
  by (simp add: CachyOS_init_def Let_def)

text \<open>
  C8: the constructor decides on the lowercase form of the edition. When that is neither
  \<open>desktop\<close> nor \<open>handheld\<close>, the constructor raises and gives no instance, it has
  requested no URL, and the exception is the \<open>ValueError\<close> that names the edition whenever
  the base class constructor has returned. With an allowed lowercase form and a returning
  base class constructor exactly the listing URL is requested. Two spellings with the same
  lowercase form construct alike.
\<close>

theorem CachyOS_init_invalid_edition:
  "(lower edition_arg \<notin> {''desktop'', ''handheld''} \<longrightarrow>
      snd (CachyOS_init e folder_path edition_arg) = []
      \<and> (\<exists>err. fst (CachyOS_init e folder_path edition_arg) = Inl err)
      \<and> (GenericUpdater_init e (folder_path @ [FILE_NAME]) = None \<longrightarrow>
           fst (CachyOS_init e folder_path edition_arg) =
             Inl (ValueError (''Invalid edition: '' @ lower edition_arg
                    @ ''. Valid editions are: '' @ repr_list [''desktop'', ''handheld'']))))
   \<and> (lower edition_arg \<in> {''desktop'', ''handheld''}
        \<and> GenericUpdater_init e (folder_path @ [FILE_NAME]) = None \<longrightarrow>
          snd (CachyOS_init e folder_path edition_arg)
            = [DOWNLOAD_PAGE_URL @ ''/'' @ lower edition_arg])
   \<and> (\<forall>a. lower a = lower edition_arg \<longrightarrow>
          CachyOS_init e folder_path a = CachyOS_init e folder_path edition_arg)"
proof (intro conjI impI allI)
  assume "lower edition_arg \<notin> {''desktop'', ''handheld''}"
  then show "snd (CachyOS_init e folder_path edition_arg) = []"
    by (simp add: CachyOS_init_def Let_def split: option.splits)
next
  assume "lower edition_arg \<notin> {''desktop'', ''handheld''}"
  then show "\<exists>err. fst (CachyOS_init e folder_path edition_arg) = Inl err"
    by (simp add: CachyOS_init_def Let_def split: option.splits)
next
  assume "lower edition_arg \<notin> {''desktop'', ''handheld''}"
    and "GenericUpdater_init e (folder_path @ [FILE_NAME]) = None"
  then show "fst (CachyOS_init e folder_path edition_arg) =
             Inl (ValueError (''Invalid edition: '' @ lower edition_arg
                    @ ''. Valid editions are: '' @ repr_list [''desktop'', ''handheld'']))"
    by (simp add: CachyOS_init_def Let_def)
next
  assume "lower edition_arg \<in> {''desktop'', ''handheld''}
        \<and> GenericUpdater_init e (folder_path @ [FILE_NAME]) = None"
  then show "snd (CachyOS_init e folder_path edition_arg)
            = [DOWNLOAD_PAGE_URL @ ''/'' @ lower edition_arg]"
    by (simp add: CachyOS_init_def Let_def split: sum.splits)
next
  fix a
  assume "lower a = lower edition_arg"
  then show "CachyOS_init e folder_path a = CachyOS_init e folder_path edition_arg"
    by (rule CachyOS_init_lower)
qed

lemma lower_Server: "lower ''Server'' = ''server''"
  by code_simp

lemma lower_DeskTop: "lower ''DeskTop'' = ''desktop''"
  by code_simp

theorem CachyOS_init_invalid_edition_witness:
  "CachyOS_init (example_env 200 ''<html>'' ''abc123'') [''isos''] ''Server''
     = (Inl (ValueError (''Invalid edition: server. Valid editions are: ['' @ [CHR 0x27]
               @ ''desktop'' @ [CHR 0x27] @ '', '' @ [CHR 0x27] @ ''handheld'' @ [CHR 0x27]
               @ '']'')), [])
   \<and> snd (CachyOS_init (example_env 200 ''<html>'' ''abc123'') [''isos''] ''DeskTop'')
       = [''https://cdn.cachyos.org/ISO/desktop'']"
proof -
  have g: "GenericUpdater_init (example_env 200 ''<html>'' ''abc123'') p = None" for p
    by (simp add: example_env_def)
  have r: "repr_list [''desktop'', ''handheld''] = ''['' @ [CHR 0x27]
               @ ''desktop'' @ [CHR 0x27] @ '', '' @ [CHR 0x27] @ ''handheld'' @ [CHR 0x27]
               @ '']''"
    by (simp add: repr_list_def)
  have u: "DOWNLOAD_PAGE_URL = ''https://cdn.cachyos.org/ISO''"
    by (simp add: DOWNLOAD_PAGE_URL_def DOMAIN_def)
  from CachyOS_init_invalid_edition
         [of "''Server''" "example_env 200 ''<html>'' ''abc123''" "[''isos'']", THEN conjunct1]
  have a: "CachyOS_init (example_env 200 ''<html>'' ''abc123'') [''isos''] ''Server''
     = (Inl (ValueError (''Invalid edition: server. Valid editions are: ['' @ [CHR 0x27]
               @ ''desktop'' @ [CHR 0x27] @ '', '' @ [CHR 0x27] @ ''handheld'' @ [CHR 0x27]
               @ '']'')), [])"
    by (simp add: lower_Server g r prod_eq_iff)
  from CachyOS_init_invalid_edition
         [of "''DeskTop''" "example_env 200 ''<html>'' ''abc123''" "[''isos'']",
          THEN conjunct2, THEN conjunct1]
  have b: "snd (CachyOS_init (example_env 200 ''<html>'' ''abc123'') [''isos''] ''DeskTop'')
       = [''https://cdn.cachyos.org/ISO/desktop'']"
    by (simp add: lower_DeskTop g u)
  from a b show ?thesis by simp
qed

end
